theory Spec2Isabelle
  imports Complex_Main "HOL-Library.Multiset"
begin

section \<open>JavaScript numbers\<close>

text \<open>
  A TypeScript \<open>number\<close> is an IEEE double. The scraper divides counts by counts that
  may be zero and adds \<open>undefined\<close> to sums, so the special values decide what the
  program does: they are kept as constructors. A finite double is a rational number; the
  model computes with it exactly, so rounding, overflow to an infinity and the sign of zero
  are abstracted away (no denominator of the program can be a negative zero).
\<close>

datatype number = NaN | NegInfinity | Fin rat | Infinity

fun isNeg :: "number \<Rightarrow> bool" where
  "isNeg NegInfinity = True"
| "isNeg (Fin a) = (a < 0)"
| "isNeg _ = False"

fun num_add :: "number \<Rightarrow> number \<Rightarrow> number" where
  "num_add NaN _ = NaN"
| "num_add _ NaN = NaN"
| "num_add (Fin a) (Fin b) = Fin (a + b)"
| "num_add Infinity NegInfinity = NaN"
| "num_add NegInfinity Infinity = NaN"
| "num_add Infinity _ = Infinity"
| "num_add _ Infinity = Infinity"
| "num_add NegInfinity _ = NegInfinity"
| "num_add _ NegInfinity = NegInfinity"

fun num_neg :: "number \<Rightarrow> number" where
  "num_neg NaN = NaN"
| "num_neg NegInfinity = Infinity"
| "num_neg (Fin a) = Fin (- a)"
| "num_neg Infinity = NegInfinity"

definition num_sub :: "number \<Rightarrow> number \<Rightarrow> number" where
  "num_sub a b = num_add a (num_neg b)"

fun num_mul :: "number \<Rightarrow> number \<Rightarrow> number" where
  "num_mul NaN _ = NaN"
| "num_mul _ NaN = NaN"
| "num_mul (Fin a) (Fin b) = Fin (a * b)"
| "num_mul a b =
     (if a = Fin 0 \<or> b = Fin 0 then NaN
      else if isNeg a = isNeg b then Infinity else NegInfinity)"

fun num_div :: "number \<Rightarrow> number \<Rightarrow> number" where
  "num_div NaN _ = NaN"
| "num_div _ NaN = NaN"
| "num_div (Fin a) (Fin b) =
     (if b = 0 then (if a = 0 then NaN else if 0 < a then Infinity else NegInfinity)
      else Fin (a / b))"
| "num_div (Fin a) _ = Fin 0"
| "num_div a (Fin b) = (if isNeg a = (b < 0) then Infinity else NegInfinity)"
| "num_div _ _ = NaN"

text \<open>Comparisons with \<open>NaN\<close> are false, whichever side it is on.\<close>

fun num_lt :: "number \<Rightarrow> number \<Rightarrow> bool" where
  "num_lt NaN _ = False"
| "num_lt _ NaN = False"
| "num_lt (Fin a) (Fin b) = (a < b)"
| "num_lt _ NegInfinity = False"
| "num_lt NegInfinity _ = True"
| "num_lt Infinity _ = False"
| "num_lt _ Infinity = True"

definition num_gt :: "number \<Rightarrow> number \<Rightarrow> bool" where
  "num_gt a b = num_lt b a"

definition num_le :: "number \<Rightarrow> number \<Rightarrow> bool" where
  "num_le a b = (a \<noteq> NaN \<and> b \<noteq> NaN \<and> \<not> num_lt b a)"

text \<open>\<open>Math.max\<close> and \<open>Math.min\<close> return \<open>NaN\<close> when an argument is \<open>NaN\<close>.\<close>

definition Math_max :: "number \<Rightarrow> number \<Rightarrow> number" where
  "Math_max a b = (if a = NaN \<or> b = NaN then NaN else if num_lt a b then b else a)"

definition Math_min :: "number \<Rightarrow> number \<Rightarrow> number" where
  "Math_min a b = (if a = NaN \<or> b = NaN then NaN else if num_lt b a then b else a)"

text \<open>\<open>x || 0\<close> on a number: \<open>0\<close> and \<open>NaN\<close> are falsy.\<close>

definition orZero :: "number \<Rightarrow> number" where
  "orZero x = (if x = NaN \<or> x = Fin 0 then Fin 0 else x)"

text \<open>\<open>Number(b)\<close> of a boolean.\<close>

definition Number_of_bool :: "bool \<Rightarrow> number" where
  "Number_of_bool b = (if b then Fin 1 else Fin 0)"

text \<open>The length of an array or string, as a number.\<close>

definition num_of_nat :: "nat \<Rightarrow> number" where
  "num_of_nat n = Fin (of_nat n)"

text \<open>A value that is a number or \<open>undefined\<close>; arithmetic converts \<open>undefined\<close> to \<open>NaN\<close>.\<close>

datatype jsvalue = Undefined | Num number

fun ToNumber :: "jsvalue \<Rightarrow> number" where
  "ToNumber Undefined = NaN"
| "ToNumber (Num n) = n"

text \<open>
  Modelled from the spec: \<open>clamp\<close> is imported from \<open>util/math\<close>, which is not among the
  sources. The spec uses it as \<open>clamp(value, low, high)\<close>, the value limited to the
  interval from \<open>low\<close> to \<open>high\<close>; it is written with \<open>Math.max\<close> and \<open>Math.min\<close>.
\<close>

definition clamp :: "number \<Rightarrow> number \<Rightarrow> number \<Rightarrow> number" where
  "clamp v lo hi = Math_min (Math_max v lo) hi"

section \<open>The statistics record (SellerScraper.ts, util/dates)\<close>

record TimeInfo =
  seconds :: number
  minutes :: number
  hours :: number
  days :: number
  months :: number
  years :: number

text \<open>\<open>timeSinceCreation\<close> is optional: \<open>None\<close> is an object without that key.\<close>

record SellerStats =
  activeItems :: number
  soldItems :: number
  cheapItemsPercentage :: number
  averageImageCount :: number
  averageDescriptionLength :: number
  acceptReturnsPercentage :: number
  sellerPaysReturnsPercentage :: number
  freePostagePercentage :: number
  feedbackCount :: number
  positiveFeedbackPercentage :: number
  duplicateFeedbackPercentage :: number
  timeSinceCreation :: "TimeInfo option"

section \<open>The scoring engine (sellerRater.ts)\<close>

datatype SellerFlag =
    LowActiveItems
  | LowSoldItems
  | HighCheapItems
  | LowImages
  | ShortDescriptions
  | LowReturns
  | LowReturnPayment
  | LowFreePostage
  | LowFeedbackCount
  | PoorFeedback
  | HighDuplicateFeedback
  | NewAccount

text \<open>The keys of \<open>SellerStats\<close>, in the order the object literal declares them.\<close>

datatype StatKey =
    K_activeItems
  | K_soldItems
  | K_cheapItemsPercentage
  | K_averageImageCount
  | K_averageDescriptionLength
  | K_acceptReturnsPercentage
  | K_sellerPaysReturnsPercentage
  | K_freePostagePercentage
  | K_feedbackCount
  | K_positiveFeedbackPercentage
  | K_duplicateFeedbackPercentage
  | K_timeSinceCreation

record FactorMeta =
  weight :: number
  max_f :: number

fun factorValues :: "StatKey \<Rightarrow> FactorMeta" where
  "factorValues K_activeItems = \<lparr>weight = Fin 1, max_f = Fin 60\<rparr>"
| "factorValues K_soldItems = \<lparr>weight = Fin 8, max_f = Fin 1000\<rparr>"
| "factorValues K_cheapItemsPercentage = \<lparr>weight = Fin (-3), max_f = Fin 100\<rparr>"
| "factorValues K_averageImageCount = \<lparr>weight = Fin 2, max_f = Fin 7\<rparr>"
| "factorValues K_averageDescriptionLength = \<lparr>weight = Fin 1, max_f = Fin 100\<rparr>"
| "factorValues K_acceptReturnsPercentage = \<lparr>weight = Fin 10, max_f = Fin 100\<rparr>"
| "factorValues K_sellerPaysReturnsPercentage = \<lparr>weight = Fin 3, max_f = Fin 100\<rparr>"
| "factorValues K_freePostagePercentage = \<lparr>weight = Fin 3, max_f = Fin 100\<rparr>"
| "factorValues K_feedbackCount = \<lparr>weight = Fin 20, max_f = Fin 100\<rparr>"
| "factorValues K_positiveFeedbackPercentage = \<lparr>weight = Fin 10, max_f = Fin 100\<rparr>"
| "factorValues K_duplicateFeedbackPercentage = \<lparr>weight = Fin (-10), max_f = Fin 100\<rparr>"
| "factorValues K_timeSinceCreation = \<lparr>weight = Fin 7, max_f = Fin (365 * 2)\<rparr>"

fun factorFlags :: "StatKey \<Rightarrow> SellerFlag" where
  "factorFlags K_activeItems = LowActiveItems"
| "factorFlags K_soldItems = LowSoldItems"
| "factorFlags K_cheapItemsPercentage = HighCheapItems"
| "factorFlags K_averageImageCount = LowImages"
| "factorFlags K_averageDescriptionLength = ShortDescriptions"
| "factorFlags K_acceptReturnsPercentage = LowReturns"
| "factorFlags K_sellerPaysReturnsPercentage = LowReturnPayment"
| "factorFlags K_freePostagePercentage = LowFreePostage"
| "factorFlags K_feedbackCount = LowFeedbackCount"
| "factorFlags K_positiveFeedbackPercentage = PoorFeedback"
| "factorFlags K_duplicateFeedbackPercentage = HighDuplicateFeedback"
| "factorFlags K_timeSinceCreation = NewAccount"

text \<open>An entry of \<open>Object.entries(sellerStats)\<close> holds a number or a \<open>TimeInfo\<close>.\<close>

datatype StatValue = NumberV number | TimeInfoV TimeInfo

text \<open>
  \<open>Object.entries\<close> lists the own keys in insertion order: the eleven keys of the
  initial object, then \<open>timeSinceCreation\<close> when it has been set.
\<close>

definition statsEntries :: "SellerStats \<Rightarrow> (StatKey \<times> StatValue) list" where
  "statsEntries s =
     [(K_activeItems, NumberV (activeItems s)),
      (K_soldItems, NumberV (soldItems s)),
      (K_cheapItemsPercentage, NumberV (cheapItemsPercentage s)),
      (K_averageImageCount, NumberV (averageImageCount s)),
      (K_averageDescriptionLength, NumberV (averageDescriptionLength s)),
      (K_acceptReturnsPercentage, NumberV (acceptReturnsPercentage s)),
      (K_sellerPaysReturnsPercentage, NumberV (sellerPaysReturnsPercentage s)),
      (K_freePostagePercentage, NumberV (freePostagePercentage s)),
      (K_feedbackCount, NumberV (feedbackCount s)),
      (K_positiveFeedbackPercentage, NumberV (positiveFeedbackPercentage s)),
      (K_duplicateFeedbackPercentage, NumberV (duplicateFeedbackPercentage s))]
     @ (case timeSinceCreation s of
          None \<Rightarrow> []
        | Some t \<Rightarrow> [(K_timeSinceCreation, TimeInfoV t)])"

text \<open>
  The number the loop body divides: the day count under the key \<open>timeSinceCreation\<close>,
  the entry's own value under any other key. A value of the other kind (which
  \<open>statsEntries\<close> never produces) converts to \<open>NaN\<close> in the division.
\<close>

fun entryNumber :: "StatKey \<Rightarrow> StatValue \<Rightarrow> number" where
  "entryNumber K_timeSinceCreation (TimeInfoV t) = days t"
| "entryNumber K_timeSinceCreation (NumberV n) = NaN"
| "entryNumber k (NumberV n) = n"
| "entryNumber k (TimeInfoV t) = NaN"

text \<open>The local variables of \<open>rateSeller\<close> that the \<open>forEach\<close> callback updates.\<close>

record Totals =
  totalPositiveWeightedScore :: number
  totalNegativeWeightedScore :: number
  maximumPositiveScore :: number
  minimumNegativeScore :: number
  flags :: "SellerFlag list"

definition initialTotals :: Totals where
  "initialTotals =
     \<lparr>totalPositiveWeightedScore = Fin 0, totalNegativeWeightedScore = Fin 0,
      maximumPositiveScore = Fin 0, minimumNegativeScore = Fin 0, flags = []\<rparr>"

definition normalizedValueAsPercent :: "StatKey \<Rightarrow> StatValue \<Rightarrow> number" where
  "normalizedValueAsPercent key v =
     num_mul (num_div (entryNumber key v) (max_f (factorValues key))) (Fin 100)"

text \<open>The body of the \<open>forEach\<close> callback.\<close>

definition forEachBody :: "Totals \<Rightarrow> StatKey \<times> StatValue \<Rightarrow> Totals" where
  "forEachBody a e =
     (let key = fst e;
          val = entryNumber key (snd e);
          factorMeta = factorValues key;
          normalizedValue = num_div val (max_f factorMeta);
          asPercent = num_mul normalizedValue (Fin 100)
      in if num_gt (weight factorMeta) (Fin 0) then
           a\<lparr>totalPositiveWeightedScore :=
                num_add (totalPositiveWeightedScore a)
                  (clamp (num_mul normalizedValue (weight factorMeta)) (Fin 0) (weight factorMeta)),
              maximumPositiveScore := num_add (maximumPositiveScore a) (weight factorMeta),
              flags := (if num_lt asPercent (Fin 20) then flags a @ [factorFlags key] else flags a)\<rparr>
         else
           a\<lparr>totalNegativeWeightedScore :=
                num_add (totalNegativeWeightedScore a)
                  (clamp (num_mul normalizedValue (weight factorMeta)) (weight factorMeta) (Fin 0)),
              minimumNegativeScore := num_add (minimumNegativeScore a) (weight factorMeta),
              flags :=
                (if (key = K_duplicateFeedbackPercentage \<and> num_gt asPercent (Fin 10))
                    \<or> num_gt asPercent (Fin 65)
                 then flags a @ [factorFlags key] else flags a)\<rparr>)"

definition rateTotals :: "SellerStats \<Rightarrow> Totals" where
  "rateTotals sellerStats = foldl forEachBody initialTotals (statsEntries sellerStats)"

definition rateSeller :: "SellerStats \<Rightarrow> number \<times> SellerFlag list" where
  "rateSeller sellerStats =
     (let a = rateTotals sellerStats;
          normalizedPositiveScore =
            num_mul (num_div (totalPositiveWeightedScore a) (maximumPositiveScore a)) (Fin 100);
          normalizedNegativeScore =
            num_mul (num_div (totalNegativeWeightedScore a) (minimumNegativeScore a)) (Fin 100);
          normalizedScore =
            clamp (num_sub normalizedPositiveScore normalizedNegativeScore) (Fin 0) (Fin 100)
      in (normalizedScore, flags a))"

text \<open>
  The callback's flag test on its own, and the positive branch's \<open>weightedValue\<close>,
  named so that the theorems can speak of them.
\<close>

definition flagged :: "StatKey \<times> StatValue \<Rightarrow> bool" where
  "flagged e =
     (let key = fst e; asPercent = normalizedValueAsPercent key (snd e)
      in if num_gt (weight (factorValues key)) (Fin 0) then num_lt asPercent (Fin 20)
         else (key = K_duplicateFeedbackPercentage \<and> num_gt asPercent (Fin 10))
              \<or> num_gt asPercent (Fin 65))"

definition positiveWeightedValue :: "StatKey \<Rightarrow> number \<Rightarrow> number" where
  "positiveWeightedValue key n =
     clamp (num_mul (num_div n (max_f (factorValues key))) (weight (factorValues key)))
       (Fin 0) (weight (factorValues key))"


text \<open>The record of the spec's end-to-end example; only the day count of the age matters.\<close>

definition exampleStats :: SellerStats where
  "exampleStats =
     \<lparr>activeItems = Fin 60, soldItems = Fin 1000, cheapItemsPercentage = Fin 0,
      averageImageCount = Fin 7, averageDescriptionLength = Fin 100,
      acceptReturnsPercentage = Fin 100, sellerPaysReturnsPercentage = Fin 100,
      freePostagePercentage = Fin 100, feedbackCount = Fin 100,
      positiveFeedbackPercentage = Fin 100, duplicateFeedbackPercentage = Fin 0,
      timeSinceCreation = Some \<lparr>seconds = Fin 63072000, minutes = Fin 1051200,
        hours = Fin 17520, days = Fin 730, months = Fin 24, years = Fin 2\<rparr>\<rparr>"

text \<open>
  The example record with \<open>cheapItemsPercentage\<close> as \<open>getCheapItemsPercentage\<close>
  leaves it for a shop without priced listings.
\<close>

definition nanStats :: SellerStats where
  "nanStats = exampleStats\<lparr>cheapItemsPercentage := NaN\<rparr>"

text \<open>Three factors exactly at their thresholds: 20, 65 and 10 percent of the ceiling.\<close>

definition boundaryStats :: SellerStats where
  "boundaryStats = exampleStats\<lparr>activeItems := Fin 12, cheapItemsPercentage := Fin 65,
     duplicateFeedbackPercentage := Fin 10\<rparr>"

text \<open>The example record before \<open>getAccountAge\<close> has set the account age.\<close>

definition noAgeStats :: SellerStats where
  "noAgeStats = exampleStats\<lparr>timeSinceCreation := None\<rparr>"

section \<open>The scraper (SellerScraper.ts)\<close>

subsection \<open>Strings and arrays\<close>

text \<open>
  A string is a list of characters, one per UTF-16 code unit (those below 256), so
  \<open>length\<close> is the \<open>length\<close> property.
\<close>

definition startsWith :: "string \<Rightarrow> string \<Rightarrow> bool" where
  "startsWith s p = (take (length p) s = p)"

text \<open>\<open>s.split(".")\<close>: the pieces between the full stops, at least one piece.\<close>

fun split_dot :: "string \<Rightarrow> string list" where
  "split_dot [] = [[]]"
| "split_dot (c # cs) =
     (if c = CHR ''.'' then [] # split_dot cs
      else (case split_dot cs of [] \<Rightarrow> [[c]] | w # ws \<Rightarrow> (c # w) # ws))"

definition isWhiteSpace :: "char \<Rightarrow> bool" where
  "isWhiteSpace c =
     (c \<in> {CHR 0x09, CHR 0x0A, CHR 0x0B, CHR 0x0C, CHR 0x0D, CHR 0x20, CHR 0xA0})"

definition trim :: "string \<Rightarrow> string" where
  "trim s = rev (dropWhile isWhiteSpace (rev (dropWhile isWhiteSpace s)))"

text \<open>\<open>Array.prototype.shift\<close>, for the array it leaves: nothing happens to an empty one.\<close>

fun shift :: "'a list \<Rightarrow> 'a list" where
  "shift [] = []"
| "shift (x # xs) = xs"

datatype error = TypeError

subsection \<open>One listing\<close>

text \<open>
  What the selectors of the four extractors find on a listing's page:
  the number of carousel image elements; the text of \<open>#ds_div\<close> inside the content frame
  of \<open>#desc_ifr\<close> (\<open>None\<close> when the frame or the element is missing); the text of the
  postage price element and of the returns element (\<open>None\<close> when there is no such
  element).
\<close>

record ItemPage =
  imageButtons :: nat
  descriptionEl :: "string option"
  postagePrice :: "string option"
  returnInfoDiv :: "string option"

record PostageDetails =
  allowsPostage :: bool
  isFree :: bool

record ReturnDetails =
  returnAllowed :: bool
  sellerPays :: bool

text \<open>
  The optional chain \<open>descriptionEl?.evaluate(...)\<close> is \<open>undefined\<close> without the
  element, and the cast \<open>as number\<close> does not change it.
\<close>

definition getItemDescriptionLength :: "ItemPage \<Rightarrow> jsvalue" where
  "getItemDescriptionLength itemPage =
     (case descriptionEl itemPage of
        None \<Rightarrow> Undefined
      | Some textContent \<Rightarrow> Num (num_of_nat (length textContent)))"

definition getItemImageCount :: "ItemPage \<Rightarrow> number" where
  "getItemImageCount itemPage = num_of_nat (imageButtons itemPage)"

definition getPostageDetails :: "ItemPage \<Rightarrow> PostageDetails" where
  "getPostageDetails itemPage =
     (case postagePrice itemPage of
        None \<Rightarrow> \<lparr>allowsPostage = False, isFree = False\<rparr>
      | Some priceText \<Rightarrow> \<lparr>allowsPostage = True, isFree = startsWith priceText ''Free''\<rparr>)"

text \<open>
  With \<open>returnInfo\<close> undefined both optional chains are \<open>undefined\<close>: the test for
  \<open>"No"\<close> fails and \<open>sellerPays\<close> falls back to \<open>false\<close>. With a text, \<open>split(".")[1]\<close>
  is \<open>undefined\<close> when there is no full stop, and calling \<open>trim\<close> on it throws.
\<close>

definition getReturnDetails :: "ItemPage \<Rightarrow> error + ReturnDetails" where
  "getReturnDetails itemPage =
     (case returnInfoDiv itemPage of
        None \<Rightarrow> Inr \<lparr>returnAllowed = True, sellerPays = False\<rparr>
      | Some returnInfo \<Rightarrow>
          if startsWith returnInfo ''No''
          then Inr \<lparr>returnAllowed = False, sellerPays = False\<rparr>
          else (case split_dot returnInfo of
                  first # second # rest \<Rightarrow>
                    Inr \<lparr>returnAllowed = True, sellerPays = startsWith (trim second) ''Seller''\<rparr>
                | _ \<Rightarrow> Inl TypeError))"

subsection \<open>The listings\<close>

definition CHEAP_ITEM_CRITERIA :: number where
  "CHEAP_ITEM_CRITERIA = Fin 10"

text \<open>
  One task of \<open>getCheapItemsPercentage\<close>, on the pair of counters. \<open>parseFloat\<close> is
  the built-in, taken as a parameter; the tasks only add to the counters, so their order
  does not matter and they run here in the order of the array.
\<close>

definition priceTask :: "(string \<Rightarrow> number) \<Rightarrow> nat \<times> nat \<Rightarrow> string \<Rightarrow> nat \<times> nat" where
  "priceTask parseFloat counts priceText =
     (let price = parseFloat (drop 1 priceText);
          priceCount = fst counts + 1
      in (priceCount,
          if num_le price CHEAP_ITEM_CRITERIA then snd counts + 1 else snd counts))"

definition getCheapItemsPercentage ::
    "(string \<Rightarrow> number) \<Rightarrow> SellerStats \<Rightarrow> string list \<Rightarrow> SellerStats" where
  "getCheapItemsPercentage parseFloat sellerStats priceElements =
     (let itemPriceElements = shift priceElements;
          counts = foldl (priceTask parseFloat) (0, 0) itemPriceElements
      in sellerStats\<lparr>cheapItemsPercentage :=
           num_mul (num_div (num_of_nat (snd counts)) (num_of_nat (fst counts))) (Fin 100)\<rparr>)"

record ItemSums =
  totalImageCount :: number
  totalDescriptionLength :: number
  allowPostageCount :: number
  freePostageCount :: number
  acceptReturnsCount :: number
  sellerPaysReturnPostageCount :: number

definition zeroSums :: ItemSums where
  "zeroSums =
     \<lparr>totalImageCount = Fin 0, totalDescriptionLength = Fin 0, allowPostageCount = Fin 0,
      freePostageCount = Fin 0, acceptReturnsCount = Fin 0,
      sellerPaysReturnPostageCount = Fin 0\<rparr>"

text \<open>
  The \<open>for\<close> loop of \<open>browseItemDetails\<close>. A link is given by the page it opens,
  \<open>None\<close> when \<open>goto\<close> throws: the \<open>catch\<close> continues with the next link. An error
  of \<open>getReturnDetails\<close> is not caught and ends the loop.
\<close>

fun browseLoop :: "ItemSums \<Rightarrow> ItemPage option list \<Rightarrow> error + ItemSums" where
  "browseLoop t [] = Inr t"
| "browseLoop t (None # itemLinks) = browseLoop t itemLinks"
| "browseLoop t (Some itemPage # itemLinks) =
     (let postageDetails = getPostageDetails itemPage
      in case getReturnDetails itemPage of
           Inl e \<Rightarrow> Inl e
         | Inr returnDetails \<Rightarrow>
             browseLoop
               \<lparr>totalImageCount = num_add (totalImageCount t) (getItemImageCount itemPage),
                totalDescriptionLength =
                  num_add (totalDescriptionLength t) (ToNumber (getItemDescriptionLength itemPage)),
                allowPostageCount =
                  num_add (allowPostageCount t) (Number_of_bool (allowsPostage postageDetails)),
                freePostageCount =
                  num_add (freePostageCount t) (Number_of_bool (isFree postageDetails)),
                acceptReturnsCount =
                  num_add (acceptReturnsCount t) (Number_of_bool (returnAllowed returnDetails)),
                sellerPaysReturnPostageCount =
                  num_add (sellerPaysReturnPostageCount t)
                    (Number_of_bool (sellerPays returnDetails))\<rparr>
               itemLinks)"

text \<open>
  \<open>browseItemDetails\<close> returns the statistics object as the call leaves it, and the error
  if the call threw: \<open>activeItems\<close> is assigned before the loop, the averages after it.
\<close>

definition browseItemDetails ::
    "SellerStats \<Rightarrow> ItemPage option list \<Rightarrow> SellerStats \<times> error option" where
  "browseItemDetails sellerStats links =
     (let itemLinks = shift links;
          stats = sellerStats\<lparr>activeItems := num_of_nat (length itemLinks)\<rparr>
      in case browseLoop zeroSums itemLinks of
           Inl e \<Rightarrow> (stats, Some e)
         | Inr t \<Rightarrow>
             (stats\<lparr>averageImageCount :=
                      orZero (num_div (totalImageCount t) (activeItems stats)),
                    averageDescriptionLength :=
                      orZero (num_div (totalDescriptionLength t) (activeItems stats)),
                    freePostagePercentage :=
                      orZero (num_mul (num_div (freePostageCount t) (allowPostageCount t)) (Fin 100)),
                    acceptReturnsPercentage :=
                      orZero (num_mul (num_div (acceptReturnsCount t) (activeItems stats)) (Fin 100)),
                    sellerPaysReturnsPercentage :=
                      orZero (num_mul (num_div (sellerPaysReturnPostageCount t) (acceptReturnsCount t))
                        (Fin 100))\<rparr>,
              None))"

text \<open>The object a new \<open>SellerScraper\<close> starts with.\<close>

definition initialSellerStats :: SellerStats where
  "initialSellerStats =
     \<lparr>activeItems = Fin 0, soldItems = Fin 0, cheapItemsPercentage = Fin 0,
      averageImageCount = Fin 0, averageDescriptionLength = Fin 0,
      acceptReturnsPercentage = Fin 0, sellerPaysReturnsPercentage = Fin 0,
      freePostagePercentage = Fin 0, feedbackCount = Fin 0,
      positiveFeedbackPercentage = Fin 0, duplicateFeedbackPercentage = Fin 0,
      timeSinceCreation = None\<rparr>"

subsection \<open>The feedback page\<close>

text \<open>
  A row of \<open>#feedback-cards\<close>: the text of its \<open>.card__comment\<close> element and of the
  reviewer's name element, \<open>None\<close> for a missing element.
\<close>

record FeedbackCard =
  cardComment :: "string option"
  cardFrom :: "string option"

text \<open>
  The map from a comment to the reviewers who wrote it (a missing name is \<open>undefined\<close>,
  here \<open>None\<close>), and the counter.
\<close>

record FeedbackScan =
  feedbackComments :: "string \<rightharpoonup> string option list"
  duplicateFeedbackCount :: nat

definition initialScan :: FeedbackScan where
  "initialScan = \<lparr>feedbackComments = Map.empty, duplicateFeedbackCount = 0\<rparr>"

text \<open>
  One task of \<open>findDuplicateFeedbackPercentage\<close>. After its last \<open>await\<close> the task reads
  and writes the map and the counter without a suspension point, and JavaScript runs one
  callback at a time: the tasks' effects happen one whole task after another, in the order
  in which the tasks get there.
\<close>

definition feedbackTask :: "FeedbackScan \<Rightarrow> FeedbackCard \<Rightarrow> FeedbackScan" where
  "feedbackTask st fbContainer =
     (case map_option trim (cardComment fbContainer) of
        None \<Rightarrow> st
      | Some comment \<Rightarrow>
          if comment = [] then st
          else if length comment < 15 then st
          else (let username = cardFrom fbContainer
                in case feedbackComments st comment of
                     None \<Rightarrow> st\<lparr>feedbackComments := (feedbackComments st)(comment \<mapsto> [username])\<rparr>
                   | Some storedComment \<Rightarrow>
                       if username \<in> set storedComment then st
                       else (let stored = storedComment @ [username]
                             in st\<lparr>feedbackComments := (feedbackComments st)(comment \<mapsto> stored),
                                   duplicateFeedbackCount :=
                                     (if length stored > 1 then duplicateFeedbackCount st + 1
                                      else duplicateFeedbackCount st)\<rparr>)))"

definition scanFeedback :: "FeedbackCard list \<Rightarrow> FeedbackScan" where
  "scanFeedback completed = foldl feedbackTask initialScan completed"

text \<open>
  \<open>findDuplicateFeedbackPercentage\<close>, given the rows of the page and the order in which
  the tasks of the remaining rows complete (a rearrangement of those rows).
\<close>

definition findDuplicateFeedbackPercentage :: "FeedbackCard list \<Rightarrow> FeedbackCard list \<Rightarrow> number" where
  "findDuplicateFeedbackPercentage completed rows =
     (let feedbackContainers = shift rows;
          st = scanFeedback completed
      in num_mul
           (num_div (num_of_nat (duplicateFeedbackCount st)) (num_of_nat (length feedbackContainers)))
           (Fin 100))"

text \<open>
  What a row contributes to the scan: its trimmed comment with its reviewer, when the
  comment has at least 15 characters.
\<close>

definition posting :: "FeedbackCard \<Rightarrow> (string \<times> string option) option" where
  "posting fbContainer =
     (case map_option trim (cardComment fbContainer) of
        None \<Rightarrow> None
      | Some comment \<Rightarrow>
          if length comment < 15 then None else Some (comment, cardFrom fbContainer))"

definition postings :: "FeedbackCard list \<Rightarrow> (string \<times> string option) set" where
  "postings cards = set (List.map_filter posting cards)"

definition reviewersOf :: "FeedbackCard list \<Rightarrow> string \<Rightarrow> string option set" where
  "reviewersOf cards comment = {u. (comment, u) \<in> postings cards}"

text \<open>Example inputs.\<close>

definition decoyPage :: ItemPage where
  "decoyPage = \<lparr>imageButtons = 0, descriptionEl = None, postagePrice = None,
     returnInfoDiv = Some ''No returns accepted''\<rparr>"

definition describedPage :: ItemPage where
  "describedPage = \<lparr>imageButtons = 3, descriptionEl = Some ''Blue mug, boxed.'',
     postagePrice = Some ''Free postage'',
     returnInfoDiv = Some ''30 day returns. Seller pays for return postage.''\<rparr>"

definition frameLessPage :: ItemPage where
  "frameLessPage = describedPage\<lparr>descriptionEl := None\<rparr>"

definition noStopPage :: ItemPage where
  "noStopPage = describedPage\<lparr>returnInfoDiv := Some ''Returns accepted''\<rparr>"

definition feedbackCard :: "string \<Rightarrow> string \<Rightarrow> FeedbackCard" where
  "feedbackCard comment username = \<lparr>cardComment = Some comment, cardFrom = Some username\<rparr>"

definition threeReviewers :: "FeedbackCard list" where
  "threeReviewers =
     [feedbackCard ''Great seller, fast post'' ''a***b'',
      feedbackCard ''Great seller, fast post'' ''c***d'',
      feedbackCard ''Great seller, fast post'' ''e***f'']"

text \<open>
  The scan after the postings \<open>S\<close> have been processed: the map holds, for each comment
  of \<open>S\<close>, exactly its reviewers, and the counter is the number of postings less the
  number of comments.
\<close>

definition scanInv :: "FeedbackScan \<Rightarrow> (string \<times> string option) set \<Rightarrow> bool" where
  "scanInv st S =
     (finite S
      \<and> (\<forall>c. case feedbackComments st c of
                None \<Rightarrow> c \<notin> fst ` S
              | Some us \<Rightarrow> us \<noteq> [] \<and> set us = {u. (c, u) \<in> S})
      \<and> duplicateFeedbackCount st + card (fst ` S) = card S)"

definition shuffledRows :: "FeedbackCard list" where
  "shuffledRows =
     [feedbackCard ''Item as described, thanks'' ''g***h'',
      feedbackCard ''Great seller, fast post'' ''a***b'',
      feedbackCard ''Great seller, fast post'' ''c***d'']"

section \<open>Scoring: proofs\<close>

lemmas rate_eval_simps =
  rateSeller_def rateTotals_def statsEntries_def forEachBody_def initialTotals_def
  clamp_def Math_max_def Math_min_def num_gt_def num_sub_def Let_def

text \<open>
  C9. For the record with activeItems 60, soldItems 1000, cheapItemsPercentage 0,
  averageImageCount 7, averageDescriptionLength 100, the three returns and postage
  percentages 100, feedbackCount 100, positiveFeedbackPercentage 100,
  duplicateFeedbackPercentage 0 and an account age of 730 days, \<open>rateSeller\<close> returns
  the score 100 and no flag.
\<close>

theorem rateSeller_example: "rateSeller exampleStats = (Fin 100, [])"
  by (simp add: rate_eval_simps exampleStats_def)

subsection \<open>The flags\<close>

text \<open>The flags are those of the flagged entries, in the order of the entries.\<close>

lemma flags_forEachBody:
  "flags (forEachBody a e) = flags a @ (if flagged e then [factorFlags (fst e)] else [])"
  by (cases e) (auto simp: forEachBody_def flagged_def normalizedValueAsPercent_def Let_def)

lemma flags_foldl:
  "flags (foldl forEachBody a es) = flags a @ map (factorFlags \<circ> fst) (filter flagged es)"
  by (induction es arbitrary: a) (simp_all add: flags_forEachBody)


lemma NewAccount_factor: "NewAccount = factorFlags k \<longleftrightarrow> k = K_timeSinceCreation"
  by (cases k) simp_all





text \<open>At the three thresholds no flag is emitted; a hundredth beyond, all three are.\<close>

lemma boundary_flags: "snd (rateSeller boundaryStats) = []"
  by (simp add: rate_eval_simps boundaryStats_def exampleStats_def)

lemma below_boundary_flags:
  "snd (rateSeller (exampleStats\<lparr>activeItems := Fin (1199 / 100), cheapItemsPercentage := Fin (6501 / 100),
     duplicateFeedbackPercentage := Fin (1001 / 100)\<rparr>)) = [LowActiveItems, HighCheapItems, HighDuplicateFeedback]"
  by (simp add: rate_eval_simps exampleStats_def)

subsection \<open>An absent account age\<close>

text \<open>
  C10. Without the key \<open>timeSinceCreation\<close> the factor is skipped: the positive
  weighted sum is that of the nine other positive factors, the positive ceiling sum is 58,
  and the flag for a new account is not emitted. An age of 0 days is different: the
  ceiling sum is 65 and the flag is emitted.
\<close>

theorem absent_timeSinceCreation_skipped:
  assumes "timeSinceCreation s = None"
  shows "totalPositiveWeightedScore (rateTotals s) =
      foldl num_add (Fin 0)
        [positiveWeightedValue K_activeItems (activeItems s),
         positiveWeightedValue K_soldItems (soldItems s),
         positiveWeightedValue K_averageImageCount (averageImageCount s),
         positiveWeightedValue K_averageDescriptionLength (averageDescriptionLength s),
         positiveWeightedValue K_acceptReturnsPercentage (acceptReturnsPercentage s),
         positiveWeightedValue K_sellerPaysReturnsPercentage (sellerPaysReturnsPercentage s),
         positiveWeightedValue K_freePostagePercentage (freePostagePercentage s),
         positiveWeightedValue K_feedbackCount (feedbackCount s),
         positiveWeightedValue K_positiveFeedbackPercentage (positiveFeedbackPercentage s)]
    \<and> maximumPositiveScore (rateTotals s) = Fin 58
    \<and> NewAccount \<notin> set (snd (rateSeller s))
    \<and> (\<forall>t. days t = Fin 0 \<longrightarrow>
          maximumPositiveScore (rateTotals (s\<lparr>timeSinceCreation := Some t\<rparr>)) = Fin 65
          \<and> NewAccount \<in> set (snd (rateSeller (s\<lparr>timeSinceCreation := Some t\<rparr>))))"
proof (intro conjI allI impI)
  show "totalPositiveWeightedScore (rateTotals s) =
      foldl num_add (Fin 0)
        [positiveWeightedValue K_activeItems (activeItems s),
         positiveWeightedValue K_soldItems (soldItems s),
         positiveWeightedValue K_averageImageCount (averageImageCount s),
         positiveWeightedValue K_averageDescriptionLength (averageDescriptionLength s),
         positiveWeightedValue K_acceptReturnsPercentage (acceptReturnsPercentage s),
         positiveWeightedValue K_sellerPaysReturnsPercentage (sellerPaysReturnsPercentage s),
         positiveWeightedValue K_freePostagePercentage (freePostagePercentage s),
         positiveWeightedValue K_feedbackCount (feedbackCount s),
         positiveWeightedValue K_positiveFeedbackPercentage (positiveFeedbackPercentage s)]"
    using assms
    by (simp add: rateTotals_def statsEntries_def forEachBody_def initialTotals_def Let_def
        num_gt_def positiveWeightedValue_def)
  show "maximumPositiveScore (rateTotals s) = Fin 58"
    using assms
    by (simp add: rateTotals_def statsEntries_def forEachBody_def initialTotals_def Let_def
        num_gt_def)
  have "K_timeSinceCreation \<notin> fst ` set (statsEntries s)"
    using assms by (simp add: statsEntries_def)
  then show "NewAccount \<notin> set (snd (rateSeller s))"
    by (force simp: rateSeller_def rateTotals_def Let_def flags_foldl initialTotals_def
        NewAccount_factor)
next
  fix t :: TimeInfo
  assume d: "days t = Fin 0"
  show "maximumPositiveScore (rateTotals (s\<lparr>timeSinceCreation := Some t\<rparr>)) = Fin 65"
    by (simp add: rateTotals_def statsEntries_def forEachBody_def initialTotals_def Let_def
        num_gt_def)
  have "(K_timeSinceCreation, TimeInfoV t) \<in> set (statsEntries (s\<lparr>timeSinceCreation := Some t\<rparr>))"
    by (simp add: statsEntries_def)
  moreover have "flagged (K_timeSinceCreation, TimeInfoV t)"
    using d by (simp add: flagged_def normalizedValueAsPercent_def num_gt_def)
  ultimately show "NewAccount \<in> set (snd (rateSeller (s\<lparr>timeSinceCreation := Some t\<rparr>)))"
    by (force simp: rateSeller_def rateTotals_def Let_def flags_foldl initialTotals_def)
qed

text \<open>Witness for C10: the example record without the account age.\<close>

theorem absent_timeSinceCreation_skipped_witness:
  "timeSinceCreation noAgeStats = None
   \<and> maximumPositiveScore (rateTotals noAgeStats) = Fin 58
   \<and> NewAccount \<notin> set (snd (rateSeller noAgeStats))"
proof -
  have h: "timeSinceCreation noAgeStats = None" by (simp add: noAgeStats_def)
  from absent_timeSinceCreation_skipped [OF h] h show ?thesis by simp
qed

subsection \<open>The range of the score\<close>











lemma rateSeller_NaN_value: "fst (rateSeller nanStats) = NaN"
  by (simp add: rate_eval_simps nanStats_def exampleStats_def)
section \<open>The feedback scan: proofs\<close>

lemma feedbackTask_no_posting: "posting c = None \<Longrightarrow> feedbackTask st c = st"
  by (auto simp: posting_def feedbackTask_def split: option.splits if_splits)

lemma feedbackTask_posting:
  "posting c = Some (comment, username) \<Longrightarrow>
   feedbackTask st c =
     (case feedbackComments st comment of
        None \<Rightarrow> st\<lparr>feedbackComments := (feedbackComments st)(comment \<mapsto> [username])\<rparr>
      | Some storedComment \<Rightarrow>
          if username \<in> set storedComment then st
          else st\<lparr>feedbackComments := (feedbackComments st)(comment \<mapsto> storedComment @ [username]),
                  duplicateFeedbackCount :=
                    (if storedComment \<noteq> [] then duplicateFeedbackCount st + 1
                     else duplicateFeedbackCount st)\<rparr>)"
  by (auto simp: posting_def feedbackTask_def Let_def split: option.splits if_splits)

lemma scanInv_first_reviewer:
  assumes inv: "scanInv st S" and new: "feedbackComments st c = None"
  shows "scanInv (st\<lparr>feedbackComments := (feedbackComments st)(c \<mapsto> [u])\<rparr>) (insert (c, u) S)"
proof -
  from inv have fin: "finite S"
    and m: "\<And>c'. case feedbackComments st c' of
                None \<Rightarrow> c' \<notin> fst ` S
              | Some us \<Rightarrow> us \<noteq> [] \<and> set us = {u. (c', u) \<in> S}"
    and cnt: "duplicateFeedbackCount st + card (fst ` S) = card S"
    by (auto simp: scanInv_def)
  from m [of c] new have fresh: "c \<notin> fst ` S" by simp
  then have notin: "(c, u) \<notin> S" by force
  have "card (fst ` insert (c, u) S) = Suc (card (fst ` S))"
    using fin fresh by simp
  moreover have "card (insert (c, u) S) = Suc (card S)"
    using fin notin by simp
  moreover have "case ((feedbackComments st)(c \<mapsto> [u])) c' of
                None \<Rightarrow> c' \<notin> fst ` insert (c, u) S
              | Some us \<Rightarrow> us \<noteq> [] \<and> set us = {u'. (c', u') \<in> insert (c, u) S}" for c'
  proof (cases "c' = c")
    case True
    with fresh show ?thesis by force
  next
    case False
    with m [of c'] show ?thesis by (auto split: option.splits)
  qed
  ultimately show ?thesis
    using fin cnt by (simp add: scanInv_def)
qed

lemma scanInv_further_reviewer:
  assumes inv: "scanInv st S" and old: "feedbackComments st c = Some us" and new: "u \<notin> set us"
  shows "scanInv (st\<lparr>feedbackComments := (feedbackComments st)(c \<mapsto> us @ [u]),
                  duplicateFeedbackCount :=
                    (if us \<noteq> [] then duplicateFeedbackCount st + 1
                     else duplicateFeedbackCount st)\<rparr>) (insert (c, u) S)"
proof -
  from inv have fin: "finite S"
    and m: "\<And>c'. case feedbackComments st c' of
                None \<Rightarrow> c' \<notin> fst ` S
              | Some us \<Rightarrow> us \<noteq> [] \<and> set us = {u. (c', u) \<in> S}"
    and cnt: "duplicateFeedbackCount st + card (fst ` S) = card S"
    by (auto simp: scanInv_def)
  from m [of c] old have us: "us \<noteq> []" "set us = {u. (c, u) \<in> S}" by simp_all
  from us new have notin: "(c, u) \<notin> S" by auto
  from us obtain u' where "(c, u') \<in> S" by (cases us) auto
  then have "c \<in> fst ` S" by force
  then have "fst ` insert (c, u) S = fst ` S" by auto
  moreover have "card (insert (c, u) S) = Suc (card S)"
    using fin notin by simp
  moreover have "case ((feedbackComments st)(c \<mapsto> us @ [u])) c' of
                None \<Rightarrow> c' \<notin> fst ` insert (c, u) S
              | Some vs \<Rightarrow> vs \<noteq> [] \<and> set vs = {u'. (c', u') \<in> insert (c, u) S}" for c'
  proof (cases "c' = c")
    case True
    with us show ?thesis by auto
  next
    case False
    with m [of c'] show ?thesis by (auto split: option.splits)
  qed
  ultimately show ?thesis
    using fin cnt us by (simp add: scanInv_def)
qed

lemma scanInv_feedbackTask:
  assumes "scanInv st S"
  shows "scanInv (feedbackTask st c) (S \<union> set_option (posting c))"
proof (cases "posting c")
  case None
  with assms show ?thesis by (simp add: feedbackTask_no_posting)
next
  case (Some p)
  obtain comment username where p: "p = (comment, username)" by (cases p)
  note task = feedbackTask_posting [OF Some [unfolded p], of st]
  show ?thesis
  proof (cases "feedbackComments st comment")
    case None
    with scanInv_first_reviewer [OF assms None, of username] task Some p
    show ?thesis by simp
  next
    case stored: (Some us)
    show ?thesis
    proof (cases "username \<in> set us")
      case True
      from assms stored have "set us = {u. (comment, u) \<in> S}"
        by (auto simp: scanInv_def dest: spec [of _ comment])
      with True have "(comment, username) \<in> S" by auto
      then have "S \<union> set_option (posting c) = S" using Some p by auto
      with assms task stored True show ?thesis by simp
    next
      case False
      with scanInv_further_reviewer [OF assms stored False] task Some p stored
      show ?thesis by simp
    qed
  qed
qed

lemma scanInv_foldl:
  "scanInv st S \<Longrightarrow> scanInv (foldl feedbackTask st cards) (S \<union> postings cards)"
proof (induction cards arbitrary: st S)
  case Nil
  then show ?case by (simp add: postings_def map_filter_simps)
next
  case (Cons c cards)
  from Cons.IH [OF scanInv_feedbackTask [OF Cons.prems, of c]]
  have "scanInv (foldl feedbackTask st (c # cards)) (S \<union> set_option (posting c) \<union> postings cards)"
    by simp
  moreover have "S \<union> set_option (posting c) \<union> postings cards = S \<union> postings (c # cards)"
    by (auto simp: postings_def map_filter_simps split: option.splits)
  ultimately show ?case by simp
qed

lemma scanInv_scanFeedback: "scanInv (scanFeedback cards) (postings cards)"
proof -
  have "scanInv initialScan {}" by (simp add: scanInv_def initialScan_def)
  from scanInv_foldl [OF this, of cards] show ?thesis by (simp add: scanFeedback_def)
qed

lemma duplicateFeedbackCount_card:
  "duplicateFeedbackCount (scanFeedback cards) = card (postings cards) - card (fst ` postings cards)"
  using scanInv_scanFeedback [of cards] unfolding scanInv_def by linarith

lemma postings_mset: "mset xs = mset ys \<Longrightarrow> postings xs = postings ys"
proof -
  assume "mset xs = mset ys"
  then have "set xs = set ys" by (rule mset_eq_setD)
  then show ?thesis by (simp add: postings_def List.map_filter_def)
qed

lemma card_postings_fibres:
  "card (postings cards) = (\<Sum>c \<in> fst ` postings cards. card (reviewersOf cards c))"
proof -
  have fin: "finite (postings cards)" by (simp add: postings_def)
  have "postings cards = (SIGMA c : fst ` postings cards. reviewersOf cards c)"
    by (force simp: reviewersOf_def)
  moreover have "\<forall>c \<in> fst ` postings cards. finite (reviewersOf cards c)"
  proof
    fix c
    have "reviewersOf cards c \<subseteq> snd ` postings cards" by (force simp: reviewersOf_def)
    then show "finite (reviewersOf cards c)" using fin by (meson finite_imageI finite_subset)
  qed
  ultimately show ?thesis
    using card_SigmaI [of "fst ` postings cards" "reviewersOf cards"] fin by simp
qed

text \<open>
  C3, as amended. A comment of at least 15 characters contributes to the duplicate count
  the number of its distinct reviewers less one: the count goes up each time a reviewer
  not yet recorded for the comment posts it, except for the first reviewer. A repeat from
  a recorded reviewer and a comment under 15 characters contribute nothing.
\<close>

theorem duplicate_count_per_comment:
  "duplicateFeedbackCount (scanFeedback cards) =
     (\<Sum>c \<in> fst ` postings cards. card (reviewersOf cards c) - 1)"
proof -
  have fin: "finite (postings cards)" by (simp add: postings_def)
  have one: "1 \<le> card (reviewersOf cards c)" if "c \<in> fst ` postings cards" for c
  proof -
    from that obtain u where "u \<in> reviewersOf cards c" by (force simp: reviewersOf_def)
    moreover have "reviewersOf cards c \<subseteq> snd ` postings cards" by (force simp: reviewersOf_def)
    then have "finite (reviewersOf cards c)" using fin by (meson finite_imageI finite_subset)
    ultimately show ?thesis by (metis One_nat_def Suc_leI card_gt_0_iff empty_iff)
  qed
  have "(\<Sum>c \<in> fst ` postings cards. card (reviewersOf cards c) - 1)
      = (\<Sum>c \<in> fst ` postings cards. card (reviewersOf cards c)) - (\<Sum>c \<in> fst ` postings cards. 1)"
    using one by (rule sum_subtractf_nat)
  then show ?thesis
    by (simp add: duplicateFeedbackCount_card card_postings_fibres)
qed

text \<open>
  Counterexample for C3 as stated: one comment from three distinct reviewers contributes
  more than 1.
\<close>

theorem duplicate_count_three_reviewers:
  "\<not> duplicateFeedbackCount (scanFeedback threeReviewers) \<le> 1"
  by (simp add: scanFeedback_def threeReviewers_def feedbackCard_def feedbackTask_def initialScan_def
      trim_def isWhiteSpace_def Let_def)

lemma duplicate_count_three_reviewers_value:
  "duplicateFeedbackCount (scanFeedback threeReviewers) = 2"
  by (simp add: scanFeedback_def threeReviewers_def feedbackCard_def feedbackTask_def initialScan_def
      trim_def isWhiteSpace_def Let_def)

text \<open>
  C8. For any two orders in which the tasks of the rows left after the decoy complete,
  \<open>findDuplicateFeedbackPercentage\<close> returns the same number.
\<close>

theorem duplicate_percentage_order_independent:
  assumes "mset completed = mset (shift rows)" and "mset completed' = mset (shift rows)"
  shows "findDuplicateFeedbackPercentage completed rows
       = findDuplicateFeedbackPercentage completed' rows"
proof -
  from assms have "mset completed = mset completed'" by simp
  then have "postings completed = postings completed'"
    by (rule postings_mset)
  then show ?thesis
    by (simp add: findDuplicateFeedbackPercentage_def duplicateFeedbackCount_card)
qed

text \<open>Witness for C8: three rows after the decoy, in page order and in reverse.\<close>

theorem duplicate_percentage_order_independent_witness:
  "mset (shift shuffledRows) = mset (shift shuffledRows)
   \<and> mset (rev (shift shuffledRows)) = mset (shift shuffledRows)
   \<and> findDuplicateFeedbackPercentage (shift shuffledRows) shuffledRows
       = findDuplicateFeedbackPercentage (rev (shift shuffledRows)) shuffledRows"
proof -
  have h: "mset (rev (shift shuffledRows)) = mset (shift shuffledRows)" by simp
  from duplicate_percentage_order_independent [OF refl h] h show ?thesis by simp
qed
section \<open>The listings: proofs\<close>

lemma length_shift: "length (shift xs) = length xs - 1"
  by (cases xs) simp_all

lemma activeItems_browseItemDetails:
  "activeItems (fst (browseItemDetails st links)) = num_of_nat (length (shift links))"
  by (simp add: browseItemDetails_def Let_def split: sum.split)

text \<open>
  C6. With N links, N at least 1, \<open>activeItems\<close> is N - 1, whether or not the loop
  over the links completes; with M feedback rows, M at least 1, the duplicate count is
  divided by M - 1.
\<close>

theorem decoy_discard:
  assumes "length links = N" and "1 \<le> N" and "length rows = M" and "1 \<le> M"
  shows "activeItems (fst (browseItemDetails st links)) = num_of_nat (N - 1)
       \<and> findDuplicateFeedbackPercentage completed rows =
           num_mul (num_div (num_of_nat (duplicateFeedbackCount (scanFeedback completed)))
                      (num_of_nat (M - 1))) (Fin 100)"
  using assms
  by (simp add: activeItems_browseItemDetails length_shift findDuplicateFeedbackPercentage_def Let_def)

text \<open>Witness for C6: the decoy and two listings; the decoy row and two feedback rows.\<close>

theorem decoy_discard_witness:
  "length [Some decoyPage, Some describedPage, Some frameLessPage] = 3 \<and> (1::nat) \<le> 3
   \<and> length shuffledRows = 3
   \<and> activeItems (fst (browseItemDetails initialSellerStats
        [Some decoyPage, Some describedPage, Some frameLessPage])) = Fin 2
   \<and> findDuplicateFeedbackPercentage (shift shuffledRows) shuffledRows = Fin 50"
proof -
  have l: "length [Some decoyPage, Some describedPage, Some frameLessPage] = 3" by simp
  have r: "length shuffledRows = 3" by (simp add: shuffledRows_def)
  have n: "(1::nat) \<le> 3" by simp
  have c: "duplicateFeedbackCount (scanFeedback (shift shuffledRows)) = 1"
    by (simp add: scanFeedback_def shuffledRows_def feedbackCard_def feedbackTask_def
        initialScan_def trim_def isWhiteSpace_def Let_def)
  from decoy_discard [OF l n r n, of initialSellerStats "shift shuffledRows"] l r n c
  show ?thesis by (simp add: num_of_nat_def)
qed

lemmas browse_eval_simps =
  browseItemDetails_def initialSellerStats_def decoyPage_def describedPage_def
  frameLessPage_def noStopPage_def getReturnDetails_def getPostageDetails_def
  getItemDescriptionLength_def getItemImageCount_def startsWith_def trim_def
  isWhiteSpace_def zeroSums_def num_of_nat_def orZero_def Number_of_bool_def Let_def

text \<open>
  C2. A shop whose only priced element is the decoy has no priced listing left; the claim
  asks for \<open>cheapItemsPercentage\<close> 0 there, and \<open>getCheapItemsPercentage\<close>, which
  has no fallback to 0, stores \<open>NaN\<close>.
\<close>

theorem cheapItemsPercentage_no_listing:
  "cheapItemsPercentage (getCheapItemsPercentage parseFloat initialSellerStats [''$4.50'']) = NaN"
  by (simp add: getCheapItemsPercentage_def num_of_nat_def Let_def)

text \<open>
  The same division without a fallback ends \<open>findDuplicateFeedbackPercentage\<close>, while
  the five results of \<open>browseItemDetails\<close>, which have the fallback, are 0 when no
  listing is left.
\<close>

lemma duplicateFeedbackPercentage_no_row:
  "findDuplicateFeedbackPercentage [] [feedbackCard ''Thanks'' ''a***b''] = NaN"
  by (simp add: findDuplicateFeedbackPercentage_def scanFeedback_def initialScan_def
      num_of_nat_def Let_def)

lemma browseItemDetails_no_listing:
  assumes "length links \<le> 1"
  shows "browseItemDetails st links =
     (st\<lparr>activeItems := Fin 0, averageImageCount := Fin 0, averageDescriptionLength := Fin 0,
         freePostagePercentage := Fin 0, acceptReturnsPercentage := Fin 0,
         sellerPaysReturnsPercentage := Fin 0\<rparr>, None)"
proof -
  from assms have "shift links = []" by (cases links) simp_all
  then show ?thesis
    by (simp add: browseItemDetails_def zeroSums_def num_of_nat_def orZero_def Let_def)
qed

text \<open>
  C4. For a returns text without a full stop that does not begin with "No", the claim
  asks for a result; \<open>getReturnDetails\<close> throws a TypeError.
\<close>

theorem getReturnDetails_no_full_stop: "getReturnDetails noStopPage = Inl TypeError"
  by (simp add: browse_eval_simps)

text \<open>
  Without the returns element the call returns, with \<open>returnAllowed\<close> true. A text
  with a full stop that does not begin with "No" gives the result the claim describes.
\<close>

lemma getReturnDetails_absent:
  "returnInfoDiv itemPage = None \<Longrightarrow>
   getReturnDetails itemPage = Inr \<lparr>returnAllowed = True, sellerPays = False\<rparr>"
  by (simp add: getReturnDetails_def)

lemma getReturnDetails_No:
  "returnInfoDiv itemPage = Some returnInfo \<Longrightarrow> startsWith returnInfo ''No'' \<Longrightarrow>
   getReturnDetails itemPage = Inr \<lparr>returnAllowed = False, sellerPays = False\<rparr>"
  by (simp add: getReturnDetails_def)

lemma split_dot_not_empty: "split_dot s \<noteq> []"
  by (induction s) (auto split: list.splits)

lemma split_dot_second: "CHR ''.'' \<in> set s \<Longrightarrow> \<exists>first second rest. split_dot s = first # second # rest"
proof (induction s)
  case Nil
  then show ?case by simp
next
  case (Cons c s)
  show ?case
  proof (cases "c = CHR ''.''")
    case True
    then show ?thesis using split_dot_not_empty [of s] by (cases "split_dot s") auto
  next
    case False
    with Cons obtain first second rest where "split_dot s = first # second # rest" by auto
    with False show ?thesis by simp
  qed
qed

lemma getReturnDetails_with_full_stop:
  assumes "returnInfoDiv itemPage = Some returnInfo" and "\<not> startsWith returnInfo ''No''"
    and "CHR ''.'' \<in> set returnInfo"
  shows "getReturnDetails itemPage =
     Inr \<lparr>returnAllowed = True,
          sellerPays = startsWith (trim (split_dot returnInfo ! 1)) ''Seller''\<rparr>"
proof -
  from split_dot_second [OF assms(3)] obtain first second rest
    where "split_dot returnInfo = first # second # rest" by blast
  with assms(1,2) show ?thesis by (simp add: getReturnDetails_def)
qed

text \<open>
  C5. Of two sampled listings, one has a description of 16 characters and the other has
  no description frame. The claim asks for the average 16 / 2; the missing length is
  \<open>undefined\<close>, the sum becomes \<open>NaN\<close>, and the fallback makes the average 0.
\<close>

theorem averageDescriptionLength_missing_frame:
  "averageDescriptionLength (fst (browseItemDetails initialSellerStats
     [Some decoyPage, Some describedPage, Some frameLessPage])) = Fin 0"
  by (simp add: browse_eval_simps)

text \<open>With both descriptions present the average is that of the two lengths.\<close>

lemma averageDescriptionLength_both_frames:
  "averageDescriptionLength (fst (browseItemDetails initialSellerStats
     [Some decoyPage, Some describedPage, Some describedPage])) = Fin 16"
  by (simp add: browse_eval_simps)

end
